theory Spec2Isabelle
  imports Complex_Main
begin

section \<open>Values, errors and Python primitives\<close>

text \<open>
  The dashboard is Python. Its unbounded integers are modelled as \<^typ>\<open>int\<close>, its floats as
  \<^typ>\<open>real\<close>, and every exception the modelled code can raise as a value of \<open>error\<close>,
  returned on the left of a sum. The occupancy estimate rounds a quotient of floats to an
  integer, so there each operation on floats is followed by the rounding of IEEE doubles
  (\<open>fl\<close> below); the forecast rounds nothing to an integer, and is taken over the reals.
  Infinities,
  not-a-number values given as input, and overflow and underflow of the exponent of a double
  are outside the model.
\<close>

datatype error =
  TypeError | ValueError | ZeroDivisionError | IndexError | KeyError | OverflowError

text \<open>
  A sensor's \<open>current_value\<close> is whatever the store holds: \<open>None\<close> after start-up, the state
  string of the live source, or a number from the sample generator. \<open>Num x\<close> stands for every
  value that \<open>float()\<close> accepts (a number, or a string that parses to one) and carries the
  result of \<open>float()\<close>; \<open>Unknown\<close> is the string \<open>'unknown'\<close>; \<open>Malformed\<close> is any other
  string that \<open>float()\<close> rejects; \<open>Absent\<close> is \<open>None\<close>. The strings that \<open>float()\<close> turns into
  an infinity or into not-a-number (\<open>'inf'\<close>, \<open>'nan'\<close>, a literal beyond the range of a double)
  have no counterpart here.
\<close>

datatype reading = Num real | Unknown | Malformed | Absent

text \<open>\<open>float(value)\<close>: a \<open>ValueError\<close> on a string that is no number, a \<open>TypeError\<close> on \<open>None\<close>.\<close>

fun py_float :: "reading \<Rightarrow> error + real" where
  "py_float (Num x) = Inr x"
| "py_float Unknown = Inl ValueError"
| "py_float Malformed = Inl ValueError"
| "py_float Absent = Inl TypeError"

text \<open>\<open>int(x)\<close> on a number truncates toward zero.\<close>

definition py_int :: "real \<Rightarrow> int" where
  "py_int x = (if 0 \<le> x then \<lfloor>x\<rfloor> else \<lceil>x\<rceil>)"

text \<open>\<open>round(x)\<close> with one argument returns the nearest integer, a tie going to the even one.\<close>

definition py_round :: "real \<Rightarrow> int" where
  "py_round x =
     (let f = \<lfloor>x\<rfloor>; d = x - of_int f
      in if d < 1 / 2 then f
         else if 1 / 2 < d then f + 1
         else if even f then f else f + 1)"

text \<open>
  The rounding of a real to the nearest double, a tie going to the even significand: a double
  has 53 significant bits, so in the binade \<open>2 ^ e \<le> |x| < 2 ^ (e + 1)\<close> the doubles are the
  multiples of \<open>2 ^ (e - 52)\<close>. Every arithmetic operation on floats returns the rounding of
  the exact result, and so does the true division of two integers. The exponent is
  unbounded here.
\<close>

definition binade :: "real \<Rightarrow> int" where
  "binade x = \<lfloor>log 2 \<bar>x\<bar>\<rfloor>"

definition ulp :: "real \<Rightarrow> real" where
  "ulp x = 2 powi (binade x - 52)"

definition fl :: "real \<Rightarrow> real" where
  "fl x = (if x = 0 then 0 else of_int (py_round (x / ulp x)) * ulp x)"

section \<open>Threshold evaluation (\<open>Dashboard.check_for_warnings\<close>)\<close>

type_synonym tiers = "(string \<times> (int \<times> string)) list"
type_synonym comfort_table = "(string \<times> tiers) list"

text \<open>The dictionary \<open>warnings\<close> of the function, in the order it is written.\<close>

definition warnings :: comfort_table where
  "warnings =
   [(''Temperature'',
       [(''too_low'', (18, ''It's too cold to concentrate. Consider turning up the heat.'')),
        (''too_high'', (26, ''It's too hot to concentrate. Consider opening a window.''))]),
    (''Humidity'',
       [(''too_low'', (30, ''The air is too dry. Consider increasing ventilation or opening a window.'')),
        (''too_high'', (60, ''The air is too humid. Consider opening a window.''))]),
    (''CO2'',
       [(''too_high'', (1000, ''CO2 levels are high. Open a window for fresh air.''))]),
    (''IAQ'',
       [(''too_high'', (100, ''Indoor Air Quality is poor. Consider increasing ventilation or opening a window.''))]),
    (''UV Index'',
       [(''too_high'', (6, ''UV Index is high. Consider closing the blinds or staying out of direct sunlight.''))]),
    (''Microphone Noise Level'',
       [(''too_high'', (80, ''Noise levels are high. Consider reducing the noise or moving to a quieter space.''))]),
    (''Pressure'',
       [(''too_low'', (980, ''Atmospheric pressure is low. It might feel stuffy. Consider opening a window.'')),
        (''too_high'', (1030, ''Atmospheric pressure is high. Consider opening a window to ventilate the room.''))]),
    (''Light'',
       [(''too_low'', (50, ''Light levels are too low. Consider turning on more lights.'')),
        (''too_high'', (1000, ''Light levels are too bright. Consider adjusting the lighting.''))]),
    (''Gas Resistance'',
       [(''too_high'', (1000, ''Gas resistance is high. Open a window or ventilate the room.''))]),
    (''Occupancy'',
       [(''too_high'', (10, ''Too many people in the room. Consider moving to a less crowded room.''))])]"

text \<open>
  One guarded comparison of the function, \<open>key in warnings[sensor] and
  cmp(float(value), warnings[sensor][key][0])\<close>: \<open>float\<close> is reached, and may raise, only when
  the key is present. The result is the tier's message when the comparison holds.
\<close>

definition breach ::
  "(real \<Rightarrow> real \<Rightarrow> bool) \<Rightarrow> tiers \<Rightarrow> string \<Rightarrow> reading \<Rightarrow> error + string option" where
  "breach cmp entry key v =
     (case map_of entry key of
        None \<Rightarrow> Inr None
      | Some (bound, msg) \<Rightarrow>
          (case py_float v of
             Inl e \<Rightarrow> Inl e
           | Inr x \<Rightarrow> Inr (if cmp x (of_int bound) then Some msg else None)))"

text \<open>
  The body of \<open>check_for_warnings\<close> over an arbitrary table; the parameter \<open>unit\<close> is unused
  in the source as well.
\<close>

definition check_for_warnings_in ::
  "comfort_table \<Rightarrow> string \<Rightarrow> reading \<Rightarrow> string \<Rightarrow> error + (string \<times> bool)" where
  "check_for_warnings_in table sensor v unit =
     (if v = Unknown then Inr (sensor @ '' has no current value.'', True)
      else
        (case map_of table sensor of
           None \<Rightarrow> Inr (sensor @ '' value is within a comfortable range.'', True)
         | Some entry \<Rightarrow>
             (case breach (<) entry ''too_low'' v of
                Inl e \<Rightarrow> Inl e
              | Inr (Some msg) \<Rightarrow> Inr (msg, False)
              | Inr None \<Rightarrow>
                  (case breach (>) entry ''too_high'' v of
                     Inl e \<Rightarrow> Inl e
                   | Inr (Some msg) \<Rightarrow> Inr (msg, False)
                   | Inr None \<Rightarrow>
                       Inr (sensor @ '' value is within a comfortable range.'', True)))))"

definition check_for_warnings :: "string \<Rightarrow> reading \<Rightarrow> string \<Rightarrow> error + (string \<times> bool)" where
  "check_for_warnings = check_for_warnings_in warnings"

text \<open>The messages of the \<open>too_low\<close> tiers of the table, in its order.\<close>

definition too_low_messages :: "string list" where
  "too_low_messages = [m. (s, e) \<leftarrow> warnings, (k, (b, m)) \<leftarrow> e, k = ''too_low'']"

section \<open>Occupancy estimate (\<open>Sensor_Data.calculate_occupancy\<close>)\<close>

text \<open>
  The store \<open>self.data\<close>: a dictionary from room ids to rooms, each with its volume and a
  dictionary of sensors. Only the fields the estimator reads are kept. A missing key is a
  \<open>KeyError\<close>.
\<close>

record sensor_entry =
  unit_of :: string
  current_value :: reading

record room =
  room_name :: string
  volume :: real
  sensors :: "string \<rightharpoonup> sensor_entry"

type_synonym store = "string \<rightharpoonup> room"

definition calculate_occupancy ::
  "store \<Rightarrow> string \<Rightarrow> real \<Rightarrow> real \<Rightarrow> real \<Rightarrow> error + int" where
  "calculate_occupancy data room_id baseline_co2 emission_rate time_elapsed =
     (case data room_id of
        None \<Rightarrow> Inl KeyError
      | Some r \<Rightarrow>
          (case sensors r ''CO2'' of
             None \<Rightarrow> Inl KeyError
           | Some s \<Rightarrow>
               (case py_float (current_value s) of
                  Inl e \<Rightarrow> Inl e
                | Inr current_co2 \<Rightarrow>
                    (let room_volume = py_int (volume r)
                     in if current_co2 \<noteq> 0 then
                          (let co2_diff = fl (current_co2 - baseline_co2);
                               co2_produced = fl (fl (co2_diff * of_int room_volume) / 1000);
                               divisor = fl (emission_rate * fl (time_elapsed / 3600))
                           in if divisor = 0 then Inl ZeroDivisionError
                              else Inr (max 0 (py_round (fl (co2_produced / divisor)))))
                        else Inr 0))))"

text \<open>
  The formula of the specification in exact arithmetic, with the room volume as it is given.
\<close>

definition spec_people :: "real \<Rightarrow> real \<Rightarrow> real \<Rightarrow> real \<Rightarrow> real \<Rightarrow> int" where
  "spec_people current_co2 room_volume baseline_co2 emission_rate elapsed_seconds =
     max 0 (py_round (((current_co2 - baseline_co2) * room_volume / 1000)
                      / (emission_rate * (elapsed_seconds / 3600))))"

text \<open>A store with one room, as \<open>create_sensor_dict\<close> builds it for each multisensor.\<close>

definition one_room :: "real \<Rightarrow> reading \<Rightarrow> store" where
  "one_room vol v =
     [''multisensor_115'' \<mapsto>
        \<lparr>room_name = ''Conference-Space'', volume = vol,
         sensors = [''CO2'' \<mapsto> \<lparr>unit_of = ''ppm'', current_value = v\<rparr>]\<rparr>]"

section \<open>Trend forecast (\<open>Dashboard.predict_data\<close>)\<close>

text \<open>
  A naive \<open>datetime\<close> is modelled by its number of microseconds since the first instant of the
  proleptic calendar, a \<open>timedelta\<close> by its number of microseconds. Every day of a naive
  \<open>datetime\<close> has 86400 seconds, so the fields \<open>minute\<close>, \<open>second\<close> and \<open>microsecond\<close> are
  plain remainders. A \<open>datetime\<close> is never negative in this count: a subtraction that would
  go below the first instant raises \<open>OverflowError\<close>. The upper end of the \<open>datetime\<close> range
  (an \<open>OverflowError\<close> past year 9999) is outside the model.
\<close>

type_synonym instant = int

definition minutes :: "int \<Rightarrow> int" where
  "minutes m = m * 60000000"

definition hours :: "int \<Rightarrow> int" where
  "hours h = h * 3600000000"

definition total_seconds :: "int \<Rightarrow> real" where
  "total_seconds d = of_int d / 1000000"

definition minute_of :: "instant \<Rightarrow> int" where
  "minute_of t = (t div 60000000) mod 60"

definition second_of :: "instant \<Rightarrow> int" where
  "second_of t = (t div 1000000) mod 60"

definition microsecond_of :: "instant \<Rightarrow> int" where
  "microsecond_of t = t mod 1000000"

text \<open>
  \<open>scipy.stats.linregress(x, y)\<close>, a library routine the forecaster calls; only its slope
  and intercept are used. It raises \<open>ValueError\<close> on two or more points whose \<open>x\<close> are all
  identical. On a single point it raises nothing: slope and intercept are the quotient
  \<open>0.0 / 0.0\<close>, not a number, which is the result \<open>Indeterminate\<close> here. Otherwise the slope
  is the covariance of \<open>x\<close> and \<open>y\<close> over the variance of \<open>x\<close>, and the line passes through
  the two means. On empty input and on inputs of different lengths the answer depends on the
  version of the library (a \<open>ValueError\<close> in the versions followed here, not-a-number or
  broadcasting in later ones); \<open>show_current_data\<close> always passes two lists of one length, and
  every property below is about such lists.
\<close>

datatype line = Line real real | Indeterminate

definition mean :: "real list \<Rightarrow> real" where
  "mean xs = sum_list xs / of_nat (length xs)"

definition linregress :: "real list \<Rightarrow> real list \<Rightarrow> error + line" where
  "linregress xs ys =
     (if xs = [] \<or> ys = [] then Inl ValueError
      else if 1 < length xs \<and> list_all (\<lambda>x. x = hd xs) xs then Inl ValueError
      else if length xs \<noteq> length ys then Inl ValueError
      else if length xs = 1 then Inr Indeterminate
      else
        (let xmean = mean xs; ymean = mean ys;
             ssxm = mean (map (\<lambda>x. (x - xmean) * (x - xmean)) xs);
             ssxym = mean (map (\<lambda>(x, y). (x - xmean) * (y - ymean)) (zip xs ys));
             slope = ssxym / ssxm;
             intercept = ymean - slope * xmean
         in Inr (Line slope intercept)))"

text \<open>The test of the turning-point loop at index \<open>i\<close>: a strict local maximum or minimum.\<close>

definition turning_point :: "real list \<Rightarrow> nat \<Rightarrow> bool" where
  "turning_point vs i =
     ((vs ! i > vs ! (i - 1) \<and> vs ! i > vs ! (i + 1)) \<or>
      (vs ! i < vs ! (i - 1) \<and> vs ! i < vs ! (i + 1)))"

text \<open>
  The loop \<open>for i in range(len(values) - 2, 0, -1)\<close> with its \<open>break\<close>: \<open>scan_back vs i\<close> visits
  \<open>i, i - 1, ..., 1\<close> and returns the first index that passes the test. Started at
  \<open>len(values) - 2\<close> it reads inside the list only; for fewer than three values the range is
  empty, as the truncated subtraction makes it here.
\<close>

fun scan_back :: "real list \<Rightarrow> nat \<Rightarrow> nat option" where
  "scan_back vs 0 = None"
| "scan_back vs (Suc j) =
     (if turning_point vs (Suc j) then Some (Suc j) else scan_back vs j)"

definition excluded_kinds :: "string list" where
  "excluded_kinds = [''Microphone Noise Level'', ''Occupancy'', ''Light'']"

definition find_turning_point :: "string \<Rightarrow> real list \<Rightarrow> nat option" where
  "find_turning_point sensor vs =
     (if sensor \<notin> set excluded_kinds then scan_back vs (length vs - 2) else None)"

text \<open>
  Lines 727 to 751 of \<open>predict_data\<close>: the choice of the regression window. \<open>timestamps[-1]\<close>
  raises on an empty list, \<open>timestamps[-1] - timedelta(hours=2)\<close> raises \<open>OverflowError\<close>
  when the last timestamp is less than two hours after the first instant of the calendar,
  and \<open>values[i]\<close> raises on an index beyond \<open>values\<close>. The test \<open>if turning_point_index:\<close> is
  false for \<open>None\<close> and for \<open>0\<close>.
\<close>

definition select_window ::
  "string \<Rightarrow> instant list \<Rightarrow> real list \<Rightarrow> error + (instant list \<times> real list)" where
  "select_window sensor timestamps vs =
     (if timestamps = [] then Inl IndexError
      else if last timestamps - hours 2 < 0 then Inl OverflowError
      else
        (let two_hours_ago = last timestamps - hours 2;
             recent_indices =
               (if sensor = ''Light'' then [0 ..< length timestamps]
                else filter (\<lambda>i. timestamps ! i \<ge> two_hours_ago) [0 ..< length timestamps])
         in if list_ex (\<lambda>i. length vs \<le> i) recent_indices then Inl IndexError
            else
              (let recent_timestamps = map (\<lambda>i. timestamps ! i) recent_indices;
                   recent_values = map (\<lambda>i. vs ! i) recent_indices
               in case find_turning_point sensor vs of
                    None \<Rightarrow> Inr (recent_timestamps, recent_values)
                  | Some k \<Rightarrow>
                      if k \<noteq> 0 then Inr (drop k timestamps, drop k vs)
                      else Inr (recent_timestamps, recent_values))))"

text \<open>
  Lines 753 to 757: the times in seconds from the first of the window, and the fit. On an
  empty window the comprehension has nothing to index and \<open>linregress\<close> gets an empty array.
\<close>

definition time_numbers :: "instant list \<Rightarrow> real list" where
  "time_numbers recent_timestamps =
     map (\<lambda>ts. total_seconds (ts - hd recent_timestamps)) recent_timestamps"

definition fit_window :: "instant list \<Rightarrow> real list \<Rightarrow> error + line" where
  "fit_window recent_timestamps recent_values =
     linregress (time_numbers recent_timestamps) recent_values"

text \<open>Lines 763 to 770: the current time rounded down, and the 25 instants from it.\<close>

definition nearest_quarter_hour :: "instant \<Rightarrow> instant" where
  "nearest_quarter_hour current_time =
     current_time - (minutes (minute_of current_time mod 15)
                     + second_of current_time * 1000000
                     + microsecond_of current_time)"

definition future_times_from :: "instant \<Rightarrow> instant list" where
  "future_times_from current_time =
     map (\<lambda>i. nearest_quarter_hour current_time + minutes (15 * int i)) [0 ..< 25]"

text \<open>
  Lines 759 to 761 and 772 to 779: the line evaluated at each future instant, then
  \<open>max(0, p)\<close>. With a slope that is not a number every \<open>p\<close> is not a number, the comparison
  in \<open>max\<close> is false and \<open>max\<close> keeps its first argument, 0.
\<close>

definition project :: "line \<Rightarrow> instant \<Rightarrow> instant list \<Rightarrow> real list" where
  "project l start future_times =
     (case l of
        Line slope intercept \<Rightarrow>
          map (\<lambda>ft. max 0 (slope * total_seconds (ft - start) + intercept)) future_times
      | Indeterminate \<Rightarrow> map (\<lambda>ft. 0) future_times)"

text \<open>
  \<open>predict_data\<close>, with the clock it reads (\<open>datetime.now()\<close>) as the parameter
  \<open>current_time\<close>. The parameters \<open>room\<close> and \<open>unit\<close> are unused in the source and left out.
\<close>

definition predict_data ::
  "instant \<Rightarrow> string \<Rightarrow> instant list \<Rightarrow> real list \<Rightarrow> error + (instant list \<times> real list)" where
  "predict_data current_time sensor timestamps vs =
     (case select_window sensor timestamps vs of
        Inl e \<Rightarrow> Inl e
      | Inr (recent_timestamps, recent_values) \<Rightarrow>
          (case fit_window recent_timestamps recent_values of
             Inl e \<Rightarrow> Inl e
           | Inr l \<Rightarrow>
               (let future_times = future_times_from current_time
                in Inr (future_times, project l (hd recent_timestamps) future_times))))"

section \<open>The series handed to the forecaster (\<open>Dashboard.show_current_data\<close>)\<close>

text \<open>
  A history entry is a pair of a value and its timestamp; the timestamp is taken as already
  parsed by \<open>datetime.fromisoformat\<close>, the value as a number. The loop of lines 304 to 309
  appends to two lists, which are the accumulators here.
\<close>

fun drop_future ::
  "instant \<Rightarrow> (instant \<times> real) list \<Rightarrow> instant list \<Rightarrow> real list \<Rightarrow> instant list \<times> real list" where
  "drop_future current_time [] timestamps vs = (timestamps, vs)"
| "drop_future current_time ((ts, val) # rest) timestamps vs =
     (if ts \<le> current_time
      then drop_future current_time rest (timestamps @ [ts]) (vs @ [val])
      else drop_future current_time rest timestamps vs)"

text \<open>
  What \<open>show_current_data\<close> computes before it draws: the filtered series, which goes to the
  graphs, and the forecast when the series has more than one point. The clock is read once
  for the filter (\<open>current_time\<close>) and once more inside \<open>predict_data\<close> (\<open>predict_time\<close>).
  The call of \<open>predict_data\<close> is not inside any \<open>try\<close>, so an exception it raises leaves
  \<open>show_current_data\<close>.
\<close>

record display =
  timestamps_shown :: "instant list"
  values_shown :: "real list"
  forecast :: "(instant list \<times> real list) option"

definition show_current_data ::
  "instant \<Rightarrow> instant \<Rightarrow> string \<Rightarrow> (real \<times> instant) list \<Rightarrow> error + display" where
  "show_current_data current_time predict_time sensor historic_value =
     (let timestamps_all = map snd historic_value;
          values_all = map fst historic_value;
          (timestamps, vs) = drop_future current_time (zip timestamps_all values_all) [] []
      in if length timestamps > 1 then
           (case predict_data predict_time sensor timestamps vs of
              Inl e \<Rightarrow> Inl e
            | Inr p \<Rightarrow>
                Inr \<lparr>timestamps_shown = timestamps, values_shown = vs, forecast = Some p\<rparr>)
         else Inr \<lparr>timestamps_shown = timestamps, values_shown = vs, forecast = None\<rparr>)"

section \<open>Properties of the threshold evaluation\<close>

lemma check_listed:
  assumes "map_of table sensor = Some entry"
  shows "check_for_warnings_in table sensor (Num x) unit =
     (if \<exists>lo m. map_of entry ''too_low'' = Some (lo, m) \<and> x < of_int lo
      then Inr (snd (the (map_of entry ''too_low'')), False)
      else if \<exists>hi m. map_of entry ''too_high'' = Some (hi, m) \<and> of_int hi < x
      then Inr (snd (the (map_of entry ''too_high'')), False)
      else Inr (sensor @ '' value is within a comfortable range.'', True))"
  using assms
  by (auto simp: check_for_warnings_in_def breach_def split: option.splits)

lemma too_low_messages_eq:
  "too_low_messages = [''It's too cold to concentrate. Consider turning up the heat.'',
     ''The air is too dry. Consider increasing ventilation or opening a window.'',
     ''Atmospheric pressure is low. It might feel stuffy. Consider opening a window.'',
     ''Light levels are too low. Consider turning on more lights.'']"
  unfolding too_low_messages_def
  by (simp add: warnings_def)

lemma high_only_message:
  assumes "map_of warnings sensor = Some entry" and "map_of entry ''too_low'' = None"
    and "check_for_warnings sensor (Num x) unit = Inr (msg, ok)"
  shows "msg \<notin> set too_low_messages"
  using assms unfolding too_low_messages_eq
  by (auto simp: warnings_def check_for_warnings_def check_for_warnings_in_def breach_def
      split: if_splits)

text \<open>
  Claim C7. For a sensor kind of the comfort table and a numeric value, the evaluation tests
  the \<open>too_low\<close> bound first, with \<open><\<close>, then the \<open>too_high\<close> bound, with \<open>>\<close>; the first
  breach gives that tier's message and \<open>False\<close>, no breach gives the in-range message and
  \<open>True\<close>. A value at a bound is in range: Temperature 18 is, 17.9 is not. A kind with no
  \<open>too_low\<close> entry never gets the \<open>too_low\<close> message of any kind of the table.
\<close>

theorem check_for_warnings_tiers:
  "(map_of warnings sensor = Some entry \<longrightarrow>
      check_for_warnings sensor (Num x) unit =
        (if \<exists>lo m. map_of entry ''too_low'' = Some (lo, m) \<and> x < of_int lo
         then Inr (snd (the (map_of entry ''too_low'')), False)
         else if \<exists>hi m. map_of entry ''too_high'' = Some (hi, m) \<and> of_int hi < x
         then Inr (snd (the (map_of entry ''too_high'')), False)
         else Inr (sensor @ '' value is within a comfortable range.'', True)))
   \<and> check_for_warnings ''Temperature'' (Num 18) unit =
        Inr (''Temperature value is within a comfortable range.'', True)
   \<and> check_for_warnings ''Temperature'' (Num (179 / 10)) unit =
        Inr (''It's too cold to concentrate. Consider turning up the heat.'', False)
   \<and> (map_of warnings sensor = Some entry \<and> map_of entry ''too_low'' = None
        \<and> check_for_warnings sensor (Num x) unit = Inr (msg, ok) \<longrightarrow>
          msg \<notin> set too_low_messages)"
proof (intro conjI impI)
  assume "map_of warnings sensor = Some entry"
  then show "check_for_warnings sensor (Num x) unit =
        (if \<exists>lo m. map_of entry ''too_low'' = Some (lo, m) \<and> x < of_int lo
         then Inr (snd (the (map_of entry ''too_low'')), False)
         else if \<exists>hi m. map_of entry ''too_high'' = Some (hi, m) \<and> of_int hi < x
         then Inr (snd (the (map_of entry ''too_high'')), False)
         else Inr (sensor @ '' value is within a comfortable range.'', True))"
    unfolding check_for_warnings_def by (rule check_listed)
next
  show "check_for_warnings ''Temperature'' (Num 18) unit =
        Inr (''Temperature value is within a comfortable range.'', True)"
    by (simp add: check_for_warnings_def check_for_warnings_in_def warnings_def breach_def)
next
  show "check_for_warnings ''Temperature'' (Num (179 / 10)) unit =
        Inr (''It's too cold to concentrate. Consider turning up the heat.'', False)"
    by (simp add: check_for_warnings_def check_for_warnings_in_def warnings_def breach_def)
next
  assume "map_of warnings sensor = Some entry \<and> map_of entry ''too_low'' = None
        \<and> check_for_warnings sensor (Num x) unit = Inr (msg, ok)"
  then show "msg \<notin> set too_low_messages"
    using high_only_message by blast
qed




theorem check_for_warnings_tiers_witness:
  "map_of warnings ''CO2'' =
     Some [(''too_high'', (1000, ''CO2 levels are high. Open a window for fresh air.''))]
   \<and> map_of [(''too_high'', (1000 :: int, ''CO2 levels are high. Open a window for fresh air.''))]
        ''too_low'' = None
   \<and> check_for_warnings ''CO2'' (Num (- 1000000)) ''ppm'' =
       Inr (''CO2 value is within a comfortable range.'', True)
   \<and> ''CO2 value is within a comfortable range.'' \<notin> set too_low_messages"
proof -
  let ?e = "[(''too_high'', (1000 :: int, ''CO2 levels are high. Open a window for fresh air.''))]"
  let ?m = "''CO2 value is within a comfortable range.''"
  note tiers = check_for_warnings_tiers [of "''CO2''" ?e "- 1000000" "''ppm''" ?m True]
  have listed: "map_of warnings ''CO2'' = Some ?e"
    by (simp add: warnings_def)
  have no_low: "map_of ?e ''too_low'' = None"
    by simp
  have in_range: "check_for_warnings ''CO2'' (Num (- 1000000)) ''ppm'' = Inr (?m, True)"
    using tiers [THEN conjunct1, THEN mp, OF listed] by simp
  have "?m \<notin> set too_low_messages"
    by (rule tiers [THEN conjunct2, THEN conjunct2, THEN conjunct2, THEN mp,
          OF conjI [OF listed conjI [OF no_low in_range]]])
  with listed no_low in_range show ?thesis
    by (intro conjI)
qed

text \<open>
  Claim C8. For every sensor kind the value \<open>'unknown'\<close> gives the message that the kind has
  no current value, and \<open>True\<close>; the result is the same over every table, so the comfort
  table plays no part in it.
\<close>

theorem unknown_has_no_current_value:
  "check_for_warnings sensor Unknown unit = Inr (sensor @ '' has no current value.'', True)
   \<and> check_for_warnings_in table sensor Unknown unit =
       Inr (sensor @ '' has no current value.'', True)"
  by (simp add: check_for_warnings_def check_for_warnings_in_def)

text \<open>
  Claim C10. For a kind that is no key of the comfort table and a value other than
  \<open>'unknown'\<close> (a number, a string that is no number, or \<open>None\<close>), the evaluation raises
  nothing and answers that the value is within a comfortable range, with \<open>True\<close>.
\<close>

theorem unlisted_kind_in_range:
  assumes "sensor \<notin> fst ` set warnings" and "v \<noteq> Unknown"
  shows "check_for_warnings sensor v unit =
     Inr (sensor @ '' value is within a comfortable range.'', True)"
proof -
  from assms(1) have "map_of warnings sensor = None"
    by (simp add: map_of_eq_None_iff)
  with assms(2) show ?thesis
    by (simp add: check_for_warnings_def check_for_warnings_in_def)
qed

theorem unlisted_kind_in_range_witness:
  "''TOF Distance'' \<notin> fst ` set warnings \<and> Absent \<noteq> Unknown
   \<and> check_for_warnings ''TOF Distance'' Absent ''m'' =
       Inr (''TOF Distance value is within a comfortable range.'', True)"
proof -
  have listed: "''TOF Distance'' \<notin> fst ` set warnings"
    by (simp add: warnings_def)
  have other: "Absent \<noteq> Unknown"
    by simp
  from unlisted_kind_in_range [OF listed other, of "''m''"] listed other
  show ?thesis by simp
qed

section \<open>Properties of the rounding to doubles\<close>

lemma py_round_of_int: "py_round (of_int k) = k"
  by (simp add: py_round_def)

lemma py_round_close: "\<bar>of_int (py_round y) - y\<bar> \<le> 1 / 2"
proof -
  have "of_int \<lfloor>y\<rfloor> \<le> y" and "y < of_int \<lfloor>y\<rfloor> + 1"
    by linarith+
  then show ?thesis
    by (auto simp: py_round_def Let_def)
qed

lemma two_powr_powi: "(2 :: real) powr of_int k = 2 powi k"
  by (simp add: powr_real_of_int')

lemma binade_eq:
  assumes "2 powi e \<le> \<bar>x\<bar>" and "\<bar>x\<bar> < 2 powi (e + 1)"
  shows "binade x = e"
proof -
  have "(0 :: real) < 2 powi e"
    by (rule zero_less_power_int) simp
  with assms(1) have pos: "0 < \<bar>x\<bar>"
    by linarith
  have "(2 :: real) powr of_int e \<le> \<bar>x\<bar>" and "\<bar>x\<bar> < (2 :: real) powr of_int (e + 1)"
    using assms unfolding two_powr_powi by blast+
  then show ?thesis
    unfolding binade_def using pos by (simp add: floor_log_eq_powr_iff)
qed

lemma binade_bounds:
  assumes "x \<noteq> 0"
  shows "2 powi binade x \<le> \<bar>x\<bar>" and "\<bar>x\<bar> < 2 powi (binade x + 1)"
proof -
  have pos: "0 < \<bar>x\<bar>"
    using assms by simp
  have "\<lfloor>log 2 \<bar>x\<bar>\<rfloor> = binade x"
    by (simp add: binade_def)
  then have "(2 :: real) powr of_int (binade x) \<le> \<bar>x\<bar> \<and> \<bar>x\<bar> < (2 :: real) powr of_int (binade x + 1)"
    using pos by (simp add: floor_log_eq_powr_iff)
  then show "2 powi binade x \<le> \<bar>x\<bar>" and "\<bar>x\<bar> < 2 powi (binade x + 1)"
    unfolding two_powr_powi by blast+
qed

lemma fl_eval:
  assumes "2 powi e \<le> \<bar>x\<bar>" and "\<bar>x\<bar> < 2 powi (e + 1)"
  shows "fl x = of_int (py_round (x / 2 powi (e - 52))) * 2 powi (e - 52)"
proof -
  have "(0 :: real) < 2 powi e"
    by (rule zero_less_power_int) simp
  with assms(1) have "0 < \<bar>x\<bar>"
    by linarith
  then have "x \<noteq> 0"
    by simp
  then show ?thesis
    by (simp add: fl_def ulp_def binade_eq [OF assms])
qed

lemma fl_0: "fl 0 = 0"
  by (simp add: fl_def)

lemma fl_eq_0_iff: "fl x = 0 \<longleftrightarrow> x = 0"
proof
  assume zero: "fl x = 0"
  show "x = 0"
  proof (rule ccontr)
    assume nz: "x \<noteq> 0"
    have u: "0 < ulp x"
      by (simp add: ulp_def)
    from zero nz u have "py_round (x / ulp x) = 0"
      by (simp add: fl_def)
    with py_round_close [of "x / ulp x"] have "\<bar>x / ulp x\<bar> \<le> 1 / 2"
      by simp
    then have small: "\<bar>x\<bar> \<le> ulp x / 2"
      using u by (simp add: field_simps abs_mult)
    have "ulp x \<le> 2 powi binade x"
      unfolding ulp_def by (rule power_int_increasing) simp_all
    also have "\<dots> \<le> \<bar>x\<bar>"
      using binade_bounds(1) [OF nz] .
    finally have "ulp x \<le> \<bar>x\<bar>" .
    with small u show False
      by simp
  qed
qed (simp add: fl_0)

section \<open>Properties of the occupancy estimate\<close>

lemma py_round_0: "py_round 0 = 0"
  by (simp add: py_round_def)

lemma divisor_zero:
  "fl (emission_rate * fl (time_elapsed / 3600)) = 0 \<longleftrightarrow>
     emission_rate * (time_elapsed / 3600) = 0"
  by (simp add: fl_eq_0_iff)

lemma occupancy_numeric:
  assumes "data room_id = Some r" and "sensors r ''CO2'' = Some s"
    and "current_value s = Num x"
  shows "calculate_occupancy data room_id baseline emission_rate time_elapsed =
     (if x = 0 then Inr 0
      else if emission_rate * (time_elapsed / 3600) = 0 then Inl ZeroDivisionError
      else Inr (max 0 (py_round (fl
             (fl (fl (fl (x - baseline) * of_int (py_int (volume r))) / 1000)
              / fl (emission_rate * fl (time_elapsed / 3600)))))))"
  using assms by (simp add: calculate_occupancy_def Let_def divisor_zero)

lemma one_room_numeric:
  "calculate_occupancy (one_room vol (Num x)) ''multisensor_115'' baseline emission_rate
       time_elapsed =
     (if x = 0 then Inr 0
      else if emission_rate * (time_elapsed / 3600) = 0 then Inl ZeroDivisionError
      else Inr (max 0 (py_round (fl
             (fl (fl (fl (x - baseline) * of_int (py_int vol)) / 1000)
              / fl (emission_rate * fl (time_elapsed / 3600)))))))"
proof -
  let ?s = "\<lparr>unit_of = ''ppm'', current_value = Num x\<rparr>"
  let ?r = "\<lparr>room_name = ''Conference-Space'', volume = vol, sensors = [''CO2'' \<mapsto> ?s]\<rparr>"
  have r: "one_room vol (Num x) ''multisensor_115'' = Some ?r"
    by (simp add: one_room_def)
  have s: "sensors ?r ''CO2'' = Some ?s"
    by simp
  have v: "current_value ?s = Num x"
    by simp
  have "volume ?r = vol"
    by simp
  with occupancy_numeric [where data = "one_room vol (Num x)" and room_id = "''multisensor_115''",
      OF r s v]
  show ?thesis
    by (simp only:)
qed

lemma py_int_6739: "py_int (6739 / 100) = 67"
  by (simp add: py_int_def)

lemma fl_hour: "fl (3600 / 3600) = 1"
  by (simp add: fl_eval [where e = 0] py_round_def Let_def)

lemma fl_rate: "fl (18 * 1) = 18"
  by (simp add: fl_eval [where e = 4] py_round_def Let_def)

lemma example_quotient:
  "fl (fl (fl (fl (1000 - 550) * of_int 67) / 1000) / fl (18 * fl (3600 / 3600)))
     = 1885882343961395 / 2 ^ 50"
proof -
  have "fl (1000 - 550) = 450"
    by (simp add: fl_eval [where e = 8] py_round_def Let_def)
  moreover have "fl (450 * of_int 67) = 30150"
    by (simp add: fl_eval [where e = 14] py_round_def Let_def)
  moreover have "fl (30150 / 1000) = 4243235273913139 / 2 ^ 47"
    by (simp add: fl_eval [where e = 4] py_round_def Let_def)
  moreover have "fl (4243235273913139 / 2 ^ 47 / 18) = 1885882343961395 / 2 ^ 50"
    by (simp add: fl_eval [where e = 0] py_round_def Let_def)
  ultimately show ?thesis
    by (simp only: fl_hour fl_rate)
qed

lemma example_estimate:
  "calculate_occupancy (one_room (6739 / 100) (Num 1000)) ''multisensor_115'' 550 18 3600 = Inr 2"
proof -
  have "py_round (1885882343961395 / 2 ^ 50) = 2"
    by (simp add: py_round_def Let_def)
  then have q: "max 0 (py_round (fl
             (fl (fl (fl (1000 - 550) * of_int (py_int (6739 / 100))) / 1000)
              / fl (18 * fl (3600 / 3600))))) = 2"
    by (simp only: py_int_6739 example_quotient)
  have "(1000 :: real) \<noteq> 0" and "(18 :: real) * (3600 / 3600) \<noteq> 0"
    by simp_all
  then show ?thesis
    by (simp only: one_room_numeric q if_False)
qed

lemma truncated_quotient:
  "fl (fl (fl (fl (952 - 550) * of_int 67) / 1000) / fl (18 * fl (3600 / 3600)))
     = 1684721560605513 / 2 ^ 50"
proof -
  have "fl (952 - 550) = 402"
    by (simp add: fl_eval [where e = 8] py_round_def Let_def)
  moreover have "fl (402 * of_int 67) = 26934"
    by (simp add: fl_eval [where e = 14] py_round_def Let_def)
  moreover have "fl (26934 / 1000) = 7581247022724809 / 2 ^ 48"
    by (simp add: fl_eval [where e = 4] py_round_def Let_def)
  moreover have "fl (7581247022724809 / 2 ^ 48 / 18) = 1684721560605513 / 2 ^ 50"
    by (simp add: fl_eval [where e = 0] py_round_def Let_def)
  ultimately show ?thesis
    by (simp only: fl_hour fl_rate)
qed

lemma tie_quotient:
  "fl (fl (fl (fl (1950 - 550) * of_int 50) / 1000) / fl (20 * fl (1200 / 3600)))
     = 5910974510923777 / 2 ^ 49"
proof -
  have "fl (1950 - 550) = 1400"
    by (simp add: fl_eval [where e = 10] py_round_def Let_def)
  moreover have "fl (1400 * of_int 50) = 70000"
    by (simp add: fl_eval [where e = 16] py_round_def Let_def)
  moreover have "fl (70000 / 1000) = 70"
    by (simp add: fl_eval [where e = 6] py_round_def Let_def)
  moreover have "fl (1200 / 3600) = 6004799503160661 / 2 ^ 54"
    by (simp add: fl_eval [where e = "- 2"] py_round_def Let_def)
  moreover have "fl (20 * (6004799503160661 / 2 ^ 54)) = 3752999689475413 / 2 ^ 49"
    by (simp add: fl_eval [where e = 2] py_round_def Let_def)
  moreover have "fl (70 / (3752999689475413 / 2 ^ 49)) = 5910974510923777 / 2 ^ 49"
    by (simp add: fl_eval [where e = 3] py_round_def Let_def)
  ultimately show ?thesis
    by (simp only:)
qed

text \<open>
  On \<open>'unknown'\<close> and on \<open>None\<close> the conversion \<open>float()\<close> raises before the test
  \<open>if current_co2\<close> is reached, so the branch that returns 0 for missing data is not taken.
\<close>

lemma occupancy_without_reading:
  "calculate_occupancy (one_room 50 Unknown) ''multisensor_115'' 550 18 3600 = Inl ValueError
   \<and> calculate_occupancy (one_room 50 Absent) ''multisensor_115'' 550 18 3600 = Inl TypeError"
  by (simp add: calculate_occupancy_def one_room_def)

text \<open>
  Claim C2, which fails as stated: nothing guards the division, so a zero emission rate or a
  zero elapsed time with a nonzero CO2 value raises \<open>ZeroDivisionError\<close>.
\<close>

theorem occupancy_zero_denominator_counterexample:
  "calculate_occupancy (one_room 50 (Num 1000)) ''multisensor_115'' 550 0 3600
     = Inl ZeroDivisionError
   \<and> calculate_occupancy (one_room 50 (Num 1000)) ''multisensor_115'' 550 18 0
     = Inl ZeroDivisionError"
  by (simp add: one_room_numeric)

text \<open>
  Claim C2 as amended. On a numeric CO2 value the estimator returns a count that is never
  negative whenever the denominator \<open>emission_rate * (time_elapsed / 3600)\<close> is not zero; it
  returns 0 when the CO2 value is zero, and when the denominator is not zero and the room
  volume, cut to an integer, is 0; with a nonzero CO2 value and a zero denominator it raises
  \<open>ZeroDivisionError\<close>.
\<close>

theorem occupancy_on_numeric_reading:
  assumes "data room_id = Some r" and "sensors r ''CO2'' = Some s"
    and "current_value s = Num x"
  shows "(emission_rate * (time_elapsed / 3600) \<noteq> 0 \<longrightarrow>
           (\<exists>n. 0 \<le> n \<and>
              calculate_occupancy data room_id baseline emission_rate time_elapsed = Inr n))
       \<and> (x = 0 \<longrightarrow>
           calculate_occupancy data room_id baseline emission_rate time_elapsed = Inr 0)
       \<and> (emission_rate * (time_elapsed / 3600) \<noteq> 0 \<and> py_int (volume r) = 0 \<longrightarrow>
           calculate_occupancy data room_id baseline emission_rate time_elapsed = Inr 0)
       \<and> (x \<noteq> 0 \<and> emission_rate * (time_elapsed / 3600) = 0 \<longrightarrow>
           calculate_occupancy data room_id baseline emission_rate time_elapsed
             = Inl ZeroDivisionError)"
  unfolding occupancy_numeric [where data = data and room_id = room_id, OF assms]
  by (simp add: py_round_0 fl_0)

theorem occupancy_on_numeric_reading_witness:
  "one_room 0 (Num 1000) ''multisensor_115'' =
      Some \<lparr>room_name = ''Conference-Space'', volume = 0,
         sensors = [''CO2'' \<mapsto> \<lparr>unit_of = ''ppm'', current_value = Num 1000\<rparr>]\<rparr>
   \<and> (18 :: real) * (3600 / 3600) \<noteq> 0
   \<and> calculate_occupancy (one_room 0 (Num 1000)) ''multisensor_115'' 550 18 3600 = Inr 0"
proof -
  let ?s = "\<lparr>unit_of = ''ppm'', current_value = Num 1000\<rparr>"
  let ?r = "\<lparr>room_name = ''Conference-Space'', volume = 0, sensors = [''CO2'' \<mapsto> ?s]\<rparr>"
  have r: "one_room 0 (Num 1000) ''multisensor_115'' = Some ?r"
    by (simp add: one_room_def)
  have s: "sensors ?r ''CO2'' = Some ?s"
    by simp
  have v: "current_value ?s = Num 1000"
    by simp
  have d: "(18 :: real) * (3600 / 3600) \<noteq> 0"
    by simp
  have z: "py_int (volume ?r) = 0"
    by (simp add: py_int_def)
  note t = occupancy_on_numeric_reading
    [where data = "one_room 0 (Num 1000)" and room_id = "''multisensor_115''"
       and emission_rate = 18 and time_elapsed = 3600 and baseline = 550, OF r s v]
  from t d z have "calculate_occupancy (one_room 0 (Num 1000)) ''multisensor_115'' 550 18 3600 = Inr 0"
    by blast
  with r d show ?thesis by blast
qed

text \<open>
  Claim C3, which fails as stated: the estimator cuts the room volume to an integer before it
  uses it. With 952 ppm in the 67.39 cubic metres of the specification's example the
  formula gives 2 and the estimator 1.
\<close>

theorem occupancy_formula_counterexample:
  "calculate_occupancy (one_room (6739 / 100) (Num 952)) ''multisensor_115'' 550 18 3600 = Inr 1
   \<and> spec_people 952 (6739 / 100) 550 18 3600 = 2"
proof -
  have "py_round (1684721560605513 / 2 ^ 50) = 1"
    by (simp add: py_round_def Let_def)
  then have q: "max 0 (py_round (fl
             (fl (fl (fl (952 - 550) * of_int (py_int (6739 / 100))) / 1000)
              / fl (18 * fl (3600 / 3600))))) = 1"
    by (simp only: py_int_6739 truncated_quotient)
  have "(952 :: real) \<noteq> 0" and "(18 :: real) * (3600 / 3600) \<noteq> 0"
    by simp_all
  then have "calculate_occupancy (one_room (6739 / 100) (Num 952)) ''multisensor_115'' 550 18 3600
      = Inr 1"
    by (simp only: one_room_numeric q if_False)
  moreover have "spec_people 952 (6739 / 100) 550 18 3600 = 2"
    by (simp add: spec_people_def py_round_def Let_def)
  ultimately show ?thesis
    by (intro conjI)
qed

text \<open>
  The estimator rounds a double, not the exact quotient. With 1950 ppm, a volume of 50, a
  rate of 20 and 1200 seconds the exact quotient is 10.5, which rounds to the even 10; the
  double \<open>1200 / 3600\<close> is below one third, the quotient of doubles is above 10.5, and the
  estimator returns 11.
\<close>

lemma occupancy_rounds_doubles:
  "calculate_occupancy (one_room 50 (Num 1950)) ''multisensor_115'' 550 20 1200 = Inr 11
   \<and> spec_people 1950 50 550 20 1200 = 10"
proof -
  have "py_int 50 = 50"
    by (simp add: py_int_def)
  moreover have "py_round (5910974510923777 / 2 ^ 49) = 11"
    by (simp add: py_round_def Let_def)
  ultimately have q: "max 0 (py_round (fl
             (fl (fl (fl (1950 - 550) * of_int (py_int 50)) / 1000)
              / fl (20 * fl (1200 / 3600))))) = 11"
    by (simp only: tie_quotient)
  have "(1950 :: real) \<noteq> 0" and "(20 :: real) * (1200 / 3600) \<noteq> 0"
    by simp_all
  then have "calculate_occupancy (one_room 50 (Num 1950)) ''multisensor_115'' 550 20 1200 = Inr 11"
    by (simp only: one_room_numeric q if_False)
  moreover have "spec_people 1950 50 550 20 1200 = 10"
    by (simp add: spec_people_def py_round_def Let_def)
  ultimately show ?thesis
    by (intro conjI)
qed

text \<open>
  Claim C3 as amended. For a numeric CO2 value other than zero and a denominator other than
  zero, the estimate is the rounded quotient of the specification, at least 0, taken at the
  room volume cut to an integer toward zero and computed as the code computes it: in
  doubles, the result of every subtraction, product and quotient rounded to the nearest
  double. With 1000 ppm, 67.39 cubic metres, baseline 550, rate 18 and 3600 seconds the
  result is 2.
\<close>

theorem occupancy_formula_truncated_volume:
  assumes "data room_id = Some r" and "sensors r ''CO2'' = Some s"
    and "current_value s = Num x" and "x \<noteq> 0"
    and "emission_rate * (time_elapsed / 3600) \<noteq> 0"
  shows "calculate_occupancy data room_id baseline emission_rate time_elapsed =
           Inr (max 0 (py_round (fl
                  (fl (fl (fl (x - baseline) * of_int (py_int (volume r))) / 1000)
                   / fl (emission_rate * fl (time_elapsed / 3600))))))
       \<and> calculate_occupancy (one_room (6739 / 100) (Num 1000)) ''multisensor_115'' 550 18 3600
           = Inr 2"
  unfolding occupancy_numeric [where data = data and room_id = room_id, OF assms(1-3)]
  using assms(4,5) example_estimate by simp

theorem occupancy_formula_truncated_volume_witness:
  "one_room (6739 / 100) (Num 1000) ''multisensor_115'' =
      Some \<lparr>room_name = ''Conference-Space'', volume = 6739 / 100,
         sensors = [''CO2'' \<mapsto> \<lparr>unit_of = ''ppm'', current_value = Num 1000\<rparr>]\<rparr>
   \<and> (1000 :: real) \<noteq> 0 \<and> (18 :: real) * (3600 / 3600) \<noteq> 0
   \<and> calculate_occupancy (one_room (6739 / 100) (Num 1000)) ''multisensor_115'' 550 18 3600
       = Inr (max 0 (py_round (fl (fl (fl (fl (1000 - 550) * of_int 67) / 1000)
                                   / fl (18 * fl (3600 / 3600))))))
   \<and> max 0 (py_round (fl (fl (fl (fl (1000 - 550) * of_int 67) / 1000)
                           / fl (18 * fl (3600 / 3600))))) = 2"
proof -
  let ?s = "\<lparr>unit_of = ''ppm'', current_value = Num 1000\<rparr>"
  let ?r = "\<lparr>room_name = ''Conference-Space'', volume = 6739 / 100, sensors = [''CO2'' \<mapsto> ?s]\<rparr>"
  have r: "one_room (6739 / 100) (Num 1000) ''multisensor_115'' = Some ?r"
    by (simp add: one_room_def)
  have s: "sensors ?r ''CO2'' = Some ?s"
    by simp
  have v: "current_value ?s = Num 1000"
    by simp
  have x: "(1000 :: real) \<noteq> 0"
    by simp
  have d: "(18 :: real) * (3600 / 3600) \<noteq> 0"
    by simp
  have z: "py_int (volume ?r) = 67"
    by (simp add: py_int_def)
  have "py_round (1885882343961395 / 2 ^ 50) = 2"
    by (simp add: py_round_def Let_def)
  then have p: "max 0 (py_round (fl (fl (fl (fl (1000 - 550) * of_int 67) / 1000)
                           / fl (18 * fl (3600 / 3600))))) = 2"
    by (simp only: example_quotient)
  from occupancy_formula_truncated_volume
    [where data = "one_room (6739 / 100) (Num 1000)" and room_id = "''multisensor_115''"
       and baseline = 550, OF r s v x d, THEN conjunct1]
  have "calculate_occupancy (one_room (6739 / 100) (Num 1000)) ''multisensor_115'' 550 18 3600
       = Inr (max 0 (py_round (fl (fl (fl (fl (1000 - 550) * of_int 67) / 1000)
                                   / fl (18 * fl (3600 / 3600))))))"
    by (simp only: z)
  with r x d p show ?thesis
    by (intro conjI)
qed

section \<open>Properties of the filter and of the window selection\<close>

lemma drop_future_filter:
  "drop_future now ps tss vs =
     (tss @ map fst (filter (\<lambda>(ts, val). ts \<le> now) ps),
      vs @ map snd (filter (\<lambda>(ts, val). ts \<le> now) ps))"
  by (induction now ps tss vs rule: drop_future.induct) simp_all

lemma zip_swap_filter:
  "filter (\<lambda>(ts, val). ts \<le> now) (zip (map snd h) (map fst h)) =
     map (\<lambda>(val, ts). (ts, val)) (filter (\<lambda>(val, ts). ts \<le> now) h)"
  by (induction h) auto

lemma kept_series:
  "drop_future now (zip (map snd h) (map fst h)) [] [] =
     (map snd (filter (\<lambda>(val, ts). ts \<le> now) h), map fst (filter (\<lambda>(val, ts). ts \<le> now) h))"
  by (simp add: drop_future_filter zip_swap_filter comp_def case_prod_beta)

lemma quarter: "nearest_quarter_hour t = t - t mod 900000000"
proof -
  have a: "t mod 900000000 = 60000000 * ((t div 60000000) mod 15) + t mod 60000000"
    using zmod_zmult2_eq [of 15 t 60000000] by simp
  have b: "t mod 60000000 = 1000000 * ((t div 1000000) mod 60) + t mod 1000000"
    using zmod_zmult2_eq [of 60 t 1000000] by simp
  have c: "(t div 60000000) mod 60 mod 15 = (t div 60000000) mod 15"
    by (simp add: mod_mod_cancel)
  show ?thesis
    unfolding nearest_quarter_hour_def minutes_def minute_of_def second_of_def microsecond_of_def c
    using a b by simp
qed

lemma default_window_timestamps:
  "map (\<lambda>i. xs ! i) (filter (\<lambda>i. P (xs ! i)) [0 ..< length xs]) = filter P xs"
proof -
  have "filter P xs = filter P (map (\<lambda>i. xs ! i) [0 ..< length xs])"
    by (simp add: map_nth)
  also have "\<dots> = map (\<lambda>i. xs ! i) (filter (\<lambda>i. P (xs ! i)) [0 ..< length xs])"
    by (simp add: filter_map comp_def)
  finally show ?thesis by simp
qed

lemma default_window_values:
  assumes "length ts = length vs"
  shows "map (\<lambda>i. vs ! i) (filter (\<lambda>i. P (ts ! i)) [0 ..< length ts]) =
     map snd (filter (\<lambda>(t, v). P t) (zip ts vs))"
proof -
  have z: "zip ts vs = map (\<lambda>i. (ts ! i, vs ! i)) [0 ..< length ts]"
    using assms by (intro nth_equalityI) simp_all
  show ?thesis
    unfolding z by (simp add: filter_map comp_def)
qed

lemma scan_back_Some:
  "scan_back vs n = Some k \<longleftrightarrow>
     1 \<le> k \<and> k \<le> n \<and> turning_point vs k \<and> (\<forall>j. k < j \<and> j \<le> n \<longrightarrow> \<not> turning_point vs j)"
proof (induction n)
  case 0
  then show ?case by auto
next
  case (Suc n)
  show ?case
  proof (cases "turning_point vs (Suc n)")
    case True
    then show ?thesis
      by (auto simp: not_less_eq_eq le_Suc_eq)
  next
    case False
    then show ?thesis
      using Suc by (auto simp: le_Suc_eq)
  qed
qed

lemma scan_back_None:
  "scan_back vs n = None \<longleftrightarrow> (\<forall>j. 1 \<le> j \<and> j \<le> n \<longrightarrow> \<not> turning_point vs j)"
  by (induction n) (auto simp: le_Suc_eq)

lemma no_index_beyond:
  assumes "length ts = length vs" and "set is \<subseteq> {0 ..< length ts}"
  shows "\<not> list_ex (\<lambda>i. length vs \<le> i) is"
  using assms by (auto simp: list_ex_iff)

lemma select_window_light:
  assumes "length ts = length vs" and "ts \<noteq> []"
  shows "select_window ''Light'' ts vs =
     (if last ts < hours 2 then Inl OverflowError else Inr (ts, vs))"
proof -
  have "\<not> list_ex (\<lambda>i. length vs \<le> i) [0 ..< length ts]"
    using assms(1) by (simp add: list_ex_iff)
  moreover have "find_turning_point ''Light'' vs = None"
    by (simp add: find_turning_point_def excluded_kinds_def)
  moreover have "map (\<lambda>i. vs ! i) [0 ..< length ts] = vs"
    unfolding assms(1) by (rule map_nth)
  ultimately show ?thesis
    using assms(2) by (simp add: select_window_def Let_def map_nth)
qed

lemma not_excluded_not_light:
  "sensor \<notin> set excluded_kinds \<Longrightarrow> sensor \<noteq> ''Light''"
  by (auto simp: excluded_kinds_def)

lemma select_window_turning:
  assumes "sensor \<notin> set excluded_kinds" and "length ts = length vs" and "ts \<noteq> []"
    and "scan_back vs (length vs - 2) = Some k" and "hours 2 \<le> last ts"
  shows "select_window sensor ts vs = Inr (drop k ts, drop k vs)"
proof -
  have "\<not> list_ex (\<lambda>i. length vs \<le> i)
          (filter (\<lambda>i. last ts - hours 2 \<le> ts ! i) [0 ..< length ts])"
    using assms(2) by (intro no_index_beyond) auto
  moreover have "find_turning_point sensor vs = Some k"
    using assms(1,4) by (simp add: find_turning_point_def)
  moreover have "k \<noteq> 0"
    using assms(4) by (simp add: scan_back_Some)
  ultimately show ?thesis
    using assms(3,5) not_excluded_not_light [OF assms(1)]
    by (simp add: select_window_def Let_def)
qed

lemma select_window_default:
  assumes "sensor \<notin> set excluded_kinds" and "length ts = length vs" and "ts \<noteq> []"
    and "scan_back vs (length vs - 2) = None" and "hours 2 \<le> last ts"
  shows "select_window sensor ts vs =
     Inr (filter (\<lambda>t. last ts - hours 2 \<le> t) ts,
          map snd (filter (\<lambda>(t, v). last ts - hours 2 \<le> t) (zip ts vs)))"
proof -
  have "\<not> list_ex (\<lambda>i. length vs \<le> i)
          (filter (\<lambda>i. last ts - hours 2 \<le> ts ! i) [0 ..< length ts])"
    using assms(2) by (intro no_index_beyond) auto
  moreover have "find_turning_point sensor vs = None"
    using assms(1,4) by (simp add: find_turning_point_def)
  ultimately show ?thesis
    using assms(3,5) not_excluded_not_light [OF assms(1)]
      default_window_timestamps [of ts "\<lambda>t. last ts - hours 2 \<le> t"]
      default_window_values [OF assms(2), of "\<lambda>t. last ts - hours 2 \<le> t"]
    by (simp add: select_window_def Let_def)
qed

lemma predict_data_window:
  assumes "select_window sensor ts vs = Inr (wts, wvs)"
  shows "predict_data now sensor ts vs =
     (case fit_window wts wvs of
        Inl e \<Rightarrow> Inl e
      | Inr l \<Rightarrow> Inr (future_times_from now, project l (hd wts) (future_times_from now)))"
  using assms by (simp add: predict_data_def Let_def split: sum.splits)

lemma fit_window_drop:
  assumes "k < length ts"
  shows "fit_window (drop k ts) wvs =
     linregress (map (\<lambda>t. total_seconds (t - ts ! k)) (drop k ts)) wvs"
  using assms by (simp add: fit_window_def time_numbers_def hd_drop_conv_nth)

lemma select_window_lengths:
  assumes "length ts = length vs" and "select_window sensor ts vs = Inr (wts, wvs)"
  shows "length wts = length wvs \<and> length wts \<le> length ts"
proof -
  have "length (filter P [0 ..< length ts]) \<le> length ts" for P
    using length_filter_le [of P "[0 ..< length ts]"] by simp
  then show ?thesis
    using assms
    by (auto simp: select_window_def Let_def split: if_splits option.splits)
qed

lemma linregress_identical:
  assumes "1 < length xs" and "\<forall>x \<in> set xs. x = hd xs"
  shows "linregress xs ys = Inl ValueError"
  using assms by (simp add: linregress_def list_all_iff)

lemma linregress_line:
  assumes "length xs = length ys" and "a \<in> set xs" and "b \<in> set xs" and "a \<noteq> b"
  shows "\<exists>slope intercept. linregress xs ys = Inr (Line slope intercept)"
proof -
  have ne: "xs \<noteq> []" "ys \<noteq> []"
    using assms(1,2) by auto
  have "\<not> list_all (\<lambda>x. x = hd xs) xs"
  proof
    assume "list_all (\<lambda>x. x = hd xs) xs"
    with assms(2,3) have "a = hd xs" and "b = hd xs"
      unfolding list_all_iff by blast+
    with assms(4) show False by simp
  qed
  moreover have "length xs \<noteq> 1"
  proof
    assume "length xs = 1"
    then obtain x where "xs = [x]"
      by (cases xs) auto
    with assms(2-4) show False by simp
  qed
  ultimately show ?thesis
    using ne assms(1) by (simp add: linregress_def Let_def)
qed

lemma total_seconds_inj: "total_seconds a = total_seconds b \<longleftrightarrow> a = b"
  by (simp add: total_seconds_def)

lemma fit_window_identical:
  assumes "1 < length wts" and "\<forall>t \<in> set wts. t = hd wts"
  shows "fit_window wts wvs = Inl ValueError"
proof -
  from assms(1) have "wts \<noteq> []"
    by auto
  then have "hd (time_numbers wts) = total_seconds (hd wts - hd wts)"
    by (simp add: time_numbers_def hd_map)
  with assms(2) have "\<forall>x \<in> set (time_numbers wts). x = hd (time_numbers wts)"
    by (auto simp: time_numbers_def)
  moreover have "1 < length (time_numbers wts)"
    using assms(1) by (simp add: time_numbers_def)
  ultimately have "linregress (time_numbers wts) wvs = Inl ValueError"
    by (rule linregress_identical [rotated])
  then show ?thesis
    by (simp add: fit_window_def)
qed

lemma fit_window_line:
  assumes "length wts = length wvs" and "a \<in> set wts" and "b \<in> set wts" and "a \<noteq> b"
  shows "\<exists>slope intercept. fit_window wts wvs = Inr (Line slope intercept)"
proof -
  have "total_seconds (a - hd wts) \<in> set (time_numbers wts)"
    and "total_seconds (b - hd wts) \<in> set (time_numbers wts)"
    using assms(2,3) by (auto simp: time_numbers_def)
  moreover have "total_seconds (a - hd wts) \<noteq> total_seconds (b - hd wts)"
    using assms(4) by (simp add: total_seconds_inj)
  moreover have "length (time_numbers wts) = length wvs"
    using assms(1) by (simp add: time_numbers_def)
  ultimately have "\<exists>slope intercept. linregress (time_numbers wts) wvs = Inr (Line slope intercept)"
    by (rule linregress_line [rotated])
  then show ?thesis
    by (simp add: fit_window_def)
qed

lemma future_times_sorted: "sorted_wrt (<) (future_times_from now)"
  unfolding future_times_from_def
  by (simp add: sorted_wrt_map minutes_def sorted_wrt_upt [simplified] sorted_wrt_iff_nth_less)

lemma project_nonneg: "p \<in> set (project l start fts) \<Longrightarrow> 0 \<le> p"
  by (cases l) (auto simp: project_def)

lemma future_times_length: "length (future_times_from now) = 25"
  by (simp add: future_times_from_def)

lemma project_line:
  "project (Line slope intercept) start fts =
     map (\<lambda>ft. max 0 (slope * total_seconds (ft - start) + intercept)) fts"
  by (simp add: project_def)

section \<open>Properties of the forecast\<close>

text \<open>
  Claim C9. For every history and every reading of the clock, the loop keeps exactly the
  readings whose timestamp is not after the clock, in their order; these two lists are the
  series that goes to the forecaster (when it has more than one point) and to the graphs.
\<close>

theorem future_readings_excluded:
  "drop_future current_time (zip (map snd h) (map fst h)) [] [] =
     (map snd (filter (\<lambda>(val, ts). ts \<le> current_time) h),
      map fst (filter (\<lambda>(val, ts). ts \<le> current_time) h))
   \<and> show_current_data current_time predict_time sensor h =
     (let kept = filter (\<lambda>(val, ts). ts \<le> current_time) h
      in if 1 < length kept then
           (case predict_data predict_time sensor (map snd kept) (map fst kept) of
              Inl e \<Rightarrow> Inl e
            | Inr p \<Rightarrow>
                Inr \<lparr>timestamps_shown = map snd kept, values_shown = map fst kept,
                     forecast = Some p\<rparr>)
         else Inr \<lparr>timestamps_shown = map snd kept, values_shown = map fst kept,
                   forecast = None\<rparr>)"
  by (simp add: show_current_data_def kept_series Let_def)

theorem future_readings_excluded_witness:
  "drop_future 50 (zip (map snd [(400, 10), (410, 20), (420, 99 :: int)])
                       (map fst [(400 :: real, 10), (410, 20), (420, 99)])) [] [] =
     ([10, 20], [400, 410])
   \<and> show_current_data 50 60 ''CO2'' [(400, 10), (420, 99)] =
       Inr \<lparr>timestamps_shown = [10], values_shown = [400], forecast = None\<rparr>"
  using future_readings_excluded [of 50 "[(400, 10), (410, 20), (420, 99)]" 60 "''CO2''"]
    future_readings_excluded [of 50 "[(400, 10), (420, 99)]" 60 "''CO2''"]
  by simp

text \<open>
  Claim C5. For the kind Light and a series of timestamps and values of the same length, the
  regression window is the entire series, whatever the span of the timestamps and whatever
  turning points the values have: the line is fitted over all points, with times in seconds
  from the first timestamp. The one exception is a last timestamp within the first two
  hours of the calendar, where the subtraction of two hours raises before any window is
  chosen.
\<close>

theorem light_uses_entire_series:
  assumes "length ts = length vs" and "ts \<noteq> []"
  shows "select_window ''Light'' ts vs =
         (if last ts < hours 2 then Inl OverflowError else Inr (ts, vs))
     \<and> predict_data now ''Light'' ts vs =
         (if last ts < hours 2 then Inl OverflowError
          else
            (case linregress (map (\<lambda>t. total_seconds (t - hd ts)) ts) vs of
               Inl e \<Rightarrow> Inl e
             | Inr l \<Rightarrow>
                 Inr (future_times_from now, project l (hd ts) (future_times_from now))))"
proof (cases "last ts < hours 2")
  case True
  with select_window_light [OF assms] show ?thesis
    by (simp add: predict_data_def)
next
  case False
  with select_window_light [OF assms] have w: "select_window ''Light'' ts vs = Inr (ts, vs)"
    by simp
  with False show ?thesis
    by (simp add: predict_data_window [OF w] fit_window_def time_numbers_def)
qed

theorem light_uses_entire_series_witness:
  "length [0, 10800000000, 10860000000 :: int] = length [5, 1, 7 :: real]
   \<and> [0, 10800000000, 10860000000 :: int] \<noteq> []
   \<and> select_window ''Light'' [0, 10800000000, 10860000000] [5, 1, 7] =
       Inr ([0, 10800000000, 10860000000], [5, 1, 7])"
proof -
  have l: "length [0, 10800000000, 10860000000 :: int] = length [5, 1, 7 :: real]"
    by simp
  have n: "[0, 10800000000, 10860000000 :: int] \<noteq> []"
    by simp
  have late: "\<not> last [0, 10800000000, 10860000000 :: int] < hours 2"
    by (simp add: hours_def)
  from light_uses_entire_series [OF l n, THEN conjunct1] late
  have "select_window ''Light'' [0, 10800000000, 10860000000] [5, 1, 7] =
       Inr ([0, 10800000000, 10860000000], [5, 1, 7])"
    by (simp only: if_False)
  with l n show ?thesis
    by (intro conjI)
qed

text \<open>
  Claim C1. For a sensor kind other than Microphone Noise Level, Occupancy and Light and a
  series of at least two points: when \<open>k\<close> is the last index, from 1 to the second-to-last,
  whose value is strictly above both neighbours or strictly below both, the window is the
  series from index \<open>k\<close> on and the line is fitted over \<open>values[k:]\<close> with times in seconds
  from \<open>timestamps[k]\<close>; when there is no such index the window is every point whose
  timestamp is at least the last timestamp minus two hours. The last timestamp is at least
  two hours after the first instant of the calendar, so that this subtraction is defined.
\<close>

theorem window_starts_at_last_turning_point:
  assumes "sensor \<notin> set excluded_kinds" and "length ts = length vs" and "2 \<le> length vs"
    and "hours 2 \<le> last ts"
  shows "(1 \<le> k \<and> k + 1 < length vs \<and> turning_point vs k
            \<and> (\<forall>j. k < j \<and> j + 1 < length vs \<longrightarrow> \<not> turning_point vs j) \<longrightarrow>
          select_window sensor ts vs = Inr (drop k ts, drop k vs)
          \<and> predict_data now sensor ts vs =
              (case linregress (map (\<lambda>t. total_seconds (t - ts ! k)) (drop k ts)) (drop k vs) of
                 Inl e \<Rightarrow> Inl e
               | Inr l \<Rightarrow>
                   Inr (future_times_from now, project l (ts ! k) (future_times_from now))))
       \<and> ((\<forall>j. 1 \<le> j \<and> j + 1 < length vs \<longrightarrow> \<not> turning_point vs j) \<longrightarrow>
          select_window sensor ts vs =
            Inr (filter (\<lambda>t. last ts - hours 2 \<le> t) ts,
                 map snd (filter (\<lambda>(t, v). last ts - hours 2 \<le> t) (zip ts vs)))
          \<and> predict_data now sensor ts vs =
              (case linregress
                      (map (\<lambda>t. total_seconds (t - hd (filter (\<lambda>t. last ts - hours 2 \<le> t) ts)))
                         (filter (\<lambda>t. last ts - hours 2 \<le> t) ts))
                      (map snd (filter (\<lambda>(t, v). last ts - hours 2 \<le> t) (zip ts vs))) of
                 Inl e \<Rightarrow> Inl e
               | Inr l \<Rightarrow>
                   Inr (future_times_from now,
                        project l (hd (filter (\<lambda>t. last ts - hours 2 \<le> t) ts))
                          (future_times_from now))))"
proof (intro conjI impI)
  from assms(2,3) have ne: "ts \<noteq> []"
    by auto
  have bound: "j \<le> length vs - 2 \<longleftrightarrow> j + 1 < length vs" for j
    using assms(3) by arith
  {
    assume k: "1 \<le> k \<and> k + 1 < length vs \<and> turning_point vs k
            \<and> (\<forall>j. k < j \<and> j + 1 < length vs \<longrightarrow> \<not> turning_point vs j)"
    then have "scan_back vs (length vs - 2) = Some k"
      by (simp add: scan_back_Some bound)
    then show w: "select_window sensor ts vs = Inr (drop k ts, drop k vs)"
      by (rule select_window_turning [OF assms(1,2) ne _ assms(4)])
    from k assms(2) have "k < length ts"
      by simp
    then show "predict_data now sensor ts vs =
              (case linregress (map (\<lambda>t. total_seconds (t - ts ! k)) (drop k ts)) (drop k vs) of
                 Inl e \<Rightarrow> Inl e
               | Inr l \<Rightarrow>
                   Inr (future_times_from now, project l (ts ! k) (future_times_from now)))"
      by (simp add: predict_data_window [OF w] fit_window_drop hd_drop_conv_nth cong: sum.case_cong)
  }
  {
    let ?wts = "filter (\<lambda>t. last ts - hours 2 \<le> t) ts"
    assume "\<forall>j. 1 \<le> j \<and> j + 1 < length vs \<longrightarrow> \<not> turning_point vs j"
    then have "scan_back vs (length vs - 2) = None"
      by (simp add: scan_back_None bound)
    then show w: "select_window sensor ts vs =
            Inr (?wts, map snd (filter (\<lambda>(t, v). last ts - hours 2 \<le> t) (zip ts vs)))"
      by (rule select_window_default [OF assms(1,2) ne _ assms(4)])
    have "last ts \<in> set ?wts"
      using ne by (simp add: hours_def)
    then have "?wts \<noteq> []"
      by (rule contrapos_pn) simp
    then show "predict_data now sensor ts vs =
              (case linregress (map (\<lambda>t. total_seconds (t - hd ?wts)) ?wts)
                      (map snd (filter (\<lambda>(t, v). last ts - hours 2 \<le> t) (zip ts vs))) of
                 Inl e \<Rightarrow> Inl e
               | Inr l \<Rightarrow>
                   Inr (future_times_from now, project l (hd ?wts) (future_times_from now)))"
      by (simp add: predict_data_window [OF w] fit_window_def time_numbers_def)
  }
qed

theorem window_starts_at_last_turning_point_witness:
  "''CO2'' \<notin> set excluded_kinds
   \<and> length [63839664000000000, 63839664060000000, 63839664120000000, 63839664180000000 :: int]
       = length [400, 450, 430, 440 :: real]
   \<and> 2 \<le> length [400, 450, 430, 440 :: real]
   \<and> hours 2 \<le> last [63839664000000000, 63839664060000000, 63839664120000000,
                        63839664180000000]
   \<and> turning_point [400, 450, 430, 440] 2
   \<and> select_window ''CO2''
         [63839664000000000, 63839664060000000, 63839664120000000, 63839664180000000]
         [400, 450, 430, 440] =
       Inr ([63839664120000000, 63839664180000000], [430, 440])"
proof -
  let ?ts = "[63839664000000000, 63839664060000000, 63839664120000000, 63839664180000000 :: int]"
  let ?vs = "[400, 450, 430, 440 :: real]"
  have kind: "''CO2'' \<notin> set excluded_kinds"
    by (simp add: excluded_kinds_def)
  have len: "length ?ts = length ?vs"
    by simp
  have two: "2 \<le> length ?vs"
    by simp
  have late: "hours 2 \<le> last ?ts"
    by (simp add: hours_def)
  have tp: "turning_point ?vs 2"
    by (simp add: turning_point_def)
  have latest: "\<forall>j. 2 < j \<and> j + 1 < length ?vs \<longrightarrow> \<not> turning_point ?vs j"
  proof (intro allI impI)
    fix j :: nat
    assume "2 < j \<and> j + 1 < length ?vs"
    then have "2 < j" and "j < 3"
      by simp_all
    then have False
      by arith
    then show "\<not> turning_point ?vs j" ..
  qed
  have "1 \<le> (2 :: nat) \<and> 2 + 1 < length ?vs \<and> turning_point ?vs 2
          \<and> (\<forall>j. 2 < j \<and> j + 1 < length ?vs \<longrightarrow> \<not> turning_point ?vs j)"
    using tp latest by simp
  with window_starts_at_last_turning_point [OF kind len two late, of 2, THEN conjunct1]
  have "select_window ''CO2'' ?ts ?vs = Inr (drop 2 ?ts, drop 2 ?vs)"
    by blast
  then have "select_window ''CO2'' ?ts ?vs =
      Inr ([63839664120000000, 63839664180000000], [430, 440])"
    by simp
  with kind len two late tp show ?thesis
    by (intro conjI)
qed

text \<open>
  Claim C4. For every series whose selected window holds two different timestamps and every
  reading of the clock, the forecaster returns 25 instants and 25 values: the instants are
  the clock rounded down to the quarter hour and then every 15 minutes up to 360, in
  increasing order; each value is the fitted line at that instant, in seconds from the start
  of the window, or 0 when the line is below 0, so no value is negative.
\<close>

theorem forecast_points:
  assumes "length ts = length vs" and "select_window sensor ts vs = Inr (wts, wvs)"
    and "a \<in> set wts" and "b \<in> set wts" and "a \<noteq> b"
  shows "\<exists>slope intercept fts preds.
     fit_window wts wvs = Inr (Line slope intercept)
     \<and> predict_data now sensor ts vs = Inr (fts, preds)
     \<and> length fts = 25 \<and> length preds = 25
     \<and> fts = map (\<lambda>i. (now - now mod minutes 15) + minutes (15 * int i)) [0 ..< 25]
     \<and> now - now mod minutes 15 \<le> now \<and> now < (now - now mod minutes 15) + minutes 15
     \<and> sorted_wrt (<) fts
     \<and> preds = map (\<lambda>ft. max 0 (slope * total_seconds (ft - hd wts) + intercept)) fts
     \<and> (\<forall>p \<in> set preds. 0 \<le> p)"
proof -
  from select_window_lengths [OF assms(1,2)] have "length wts = length wvs" ..
  from fit_window_line [OF this assms(3-5)]
  obtain slope intercept where fit: "fit_window wts wvs = Inr (Line slope intercept)"
    by blast
  let ?fts = "future_times_from now"
  let ?preds = "project (Line slope intercept) (hd wts) ?fts"
  have "predict_data now sensor ts vs = Inr (?fts, ?preds)"
    by (simp add: predict_data_window [OF assms(2)] fit)
  moreover have "length ?fts = 25" and "length ?preds = 25"
    by (simp_all add: future_times_length project_line)
  moreover have "?fts = map (\<lambda>i. (now - now mod minutes 15) + minutes (15 * int i)) [0 ..< 25]"
    unfolding future_times_from_def quarter by (simp add: minutes_def)
  moreover have "now - now mod minutes 15 \<le> now" and "now < (now - now mod minutes 15) + minutes 15"
    by (simp_all add: minutes_def)
  moreover have "sorted_wrt (<) ?fts"
    by (rule future_times_sorted)
  moreover have "?preds = map (\<lambda>ft. max 0 (slope * total_seconds (ft - hd wts) + intercept)) ?fts"
    by (rule project_line)
  moreover have "\<forall>p \<in> set ?preds. 0 \<le> p"
    using project_nonneg by blast
  ultimately show ?thesis
    using fit by blast
qed

theorem forecast_points_witness:
  "length [63839664000000000, 63839664900000000 :: int] = length [1, 2 :: real]
   \<and> select_window ''CO2'' [63839664000000000, 63839664900000000] [1, 2] =
       Inr ([63839664000000000, 63839664900000000], [1, 2])
   \<and> (63839664000000000 :: int) \<in> set [63839664000000000, 63839664900000000]
   \<and> (63839664900000000 :: int) \<in> set [63839664000000000, 63839664900000000]
   \<and> (63839664000000000 :: int) \<noteq> 63839664900000000
   \<and> (\<exists>preds. predict_data 63839665000000000 ''CO2''
                  [63839664000000000, 63839664900000000] [1, 2] =
          Inr (map (\<lambda>i. 63839664900000000 + minutes (15 * int i)) [0 ..< 25], preds)
        \<and> length preds = 25 \<and> list_all (\<lambda>p. 0 \<le> p) preds)"
proof -
  let ?ts = "[63839664000000000, 63839664900000000 :: int]"
  have len: "length ?ts = length [1, 2 :: real]"
    by simp
  have sel: "select_window ''CO2'' ?ts [1, 2] = Inr (?ts, [1, 2])"
    by (simp add: select_window_def Let_def find_turning_point_def excluded_kinds_def hours_def)
  have a: "(63839664000000000 :: int) \<in> set ?ts" and b: "(63839664900000000 :: int) \<in> set ?ts"
    by simp_all
  have ab: "(63839664000000000 :: int) \<noteq> 63839664900000000"
    by simp
  have q: "(63839665000000000 :: int) - 63839665000000000 mod minutes 15 = 63839664900000000"
    by (simp add: minutes_def)
  from forecast_points [OF len sel a b ab, of 63839665000000000]
  obtain fts preds where "predict_data 63839665000000000 ''CO2'' ?ts [1, 2] = Inr (fts, preds)"
    and "length preds = 25"
    and "fts = map (\<lambda>i. (63839665000000000 - 63839665000000000 mod minutes 15)
                          + minutes (15 * int i)) [0 ..< 25]"
    and "\<forall>p \<in> set preds. 0 \<le> p"
    by blast
  then have "\<exists>preds. predict_data 63839665000000000 ''CO2'' ?ts [1, 2] =
          Inr (map (\<lambda>i. 63839664900000000 + minutes (15 * int i)) [0 ..< 25], preds)
        \<and> length preds = 25 \<and> list_all (\<lambda>p. 0 \<le> p) preds"
    unfolding q list_all_iff by blast
  with len sel a b ab show ?thesis
    by (intro conjI)
qed

text \<open>
  Claim C6, which fails as stated: the code has no failure of its own for a window without
  time variance and catches nothing around the forecast. With two readings at one instant
  in the window the regression routine raises \<open>ValueError\<close>, and the error leaves
  \<open>show_current_data\<close>.
\<close>

theorem degenerate_fit_counterexample:
  "select_window ''CO2'' [0, 10800000000, 10800000000] [400, 410, 420] =
     Inr ([10800000000, 10800000000], [410, 420])
   \<and> show_current_data 10900000000 10900000000 ''CO2''
       [(400, 0), (410, 10800000000), (420, 10800000000)] = Inl ValueError"
  by (simp add: show_current_data_def Let_def predict_data_def select_window_def
      find_turning_point_def excluded_kinds_def turning_point_def hours_def
      fit_window_def time_numbers_def linregress_def total_seconds_def)

text \<open>
  Claim C6 as amended. Whenever the selected window has two or more points that all share
  one timestamp, the fit fails with the \<open>ValueError\<close> of the regression routine, the
  forecaster fails with it, and so does the caller: the error is not turned into
  "no prediction available".
\<close>

theorem identical_timestamps_fit_fails:
  assumes "drop_future current_time (zip (map snd h) (map fst h)) [] [] = (ts, vs)"
    and "select_window sensor ts vs = Inr (wts, wvs)"
    and "1 < length wts" and "\<forall>t \<in> set wts. t = hd wts"
  shows "fit_window wts wvs = Inl ValueError
     \<and> predict_data predict_time sensor ts vs = Inl ValueError
     \<and> show_current_data current_time predict_time sensor h = Inl ValueError"
proof -
  have fit: "fit_window wts wvs = Inl ValueError"
    using assms(3,4) by (rule fit_window_identical)
  then have predict: "predict_data predict_time sensor ts vs = Inl ValueError"
    by (simp add: predict_data_window [OF assms(2)])
  from assms(1) have "length ts = length vs"
    by (auto simp: kept_series)
  from select_window_lengths [OF this assms(2)] assms(3) have "1 < length ts"
    by simp
  with assms(1) predict have "show_current_data current_time predict_time sensor h = Inl ValueError"
    by (simp add: show_current_data_def Let_def)
  with fit predict show ?thesis
    by (intro conjI)
qed

theorem identical_timestamps_fit_fails_witness:
  "drop_future 63839664100000000
       (zip (map snd [(20 :: real, 63839664000000000 :: int), (21, 63839664000000000),
                      (22, 63839664200000000)])
            (map fst [(20 :: real, 63839664000000000 :: int), (21, 63839664000000000),
                      (22, 63839664200000000)])) [] [] =
     ([63839664000000000, 63839664000000000], [20, 21])
   \<and> select_window ''Temperature'' [63839664000000000, 63839664000000000] [20, 21] =
       Inr ([63839664000000000, 63839664000000000], [20, 21])
   \<and> 1 < length [63839664000000000, 63839664000000000 :: int]
   \<and> list_all (\<lambda>t. t = hd [63839664000000000, 63839664000000000 :: int])
         [63839664000000000, 63839664000000000]
   \<and> show_current_data 63839664100000000 63839664100000000 ''Temperature''
         [(20, 63839664000000000), (21, 63839664000000000), (22, 63839664200000000)] =
       Inl ValueError"
proof -
  let ?h = "[(20 :: real, 63839664000000000 :: int), (21, 63839664000000000),
             (22, 63839664200000000)]"
  let ?ts = "[63839664000000000, 63839664000000000 :: int]"
  have kept: "drop_future 63839664100000000 (zip (map snd ?h) (map fst ?h)) [] [] =
     (?ts, [20, 21])"
    by simp
  have sel: "select_window ''Temperature'' ?ts [20, 21] = Inr (?ts, [20, 21])"
    by (simp add: select_window_def Let_def find_turning_point_def excluded_kinds_def hours_def)
  have many: "1 < length ?ts"
    by simp
  have same: "\<forall>t \<in> set ?ts. t = hd ?ts"
    by simp
  from identical_timestamps_fit_fails [OF kept sel many same, of 63839664100000000]
  have "show_current_data 63839664100000000 63839664100000000 ''Temperature'' ?h = Inl ValueError"
    by (elim conjE)
  moreover have "list_all (\<lambda>t. t = hd ?ts) ?ts"
    by simp
  ultimately show ?thesis
    using kept sel many by (intro conjI)
qed

text \<open>
  A window of a single point (here two readings three hours apart) is no failure in this
  model: the slope is not a number and every prediction is clamped to 0.
\<close>

lemma single_point_window:
  "select_window ''CO2'' [0, 10800000000] [400, 410] = Inr ([10800000000], [410])
   \<and> predict_data now ''CO2'' [0, 10800000000] [400, 410] =
       Inr (future_times_from now, map (\<lambda>ft. 0) (future_times_from now))"
  by (simp add: predict_data_def select_window_def Let_def
      find_turning_point_def excluded_kinds_def turning_point_def hours_def
      fit_window_def time_numbers_def linregress_def total_seconds_def project_def)

end
